theory Spec2Isabelle
  imports Complex_Main
begin

section \<open>Values shared by the whole module\<close>

text \<open>
  The module \<^verbatim>\<open>process_nclimgrid.py\<close> raises \<^verbatim>\<open>ValueError\<close> itself (line 147); the
  array library raises \<^verbatim>\<open>KeyError\<close> for a variable name that is not in the dataset,
  \<^verbatim>\<open>IndexError\<close> for an index outside an array and \<^verbatim>\<open>ValueError\<close> for operands whose
  shapes cannot be broadcast together. Every raise is a value of the type \<open>error\<close>, and a
  function that can raise returns \<open>error + 'a\<close> with \<open>Inl\<close> for the exception.
\<close>

datatype error = ValueError string | KeyError string | IndexError

subsection \<open>Python's \<^verbatim>\<open>str\<close> on integers and \<^verbatim>\<open>None\<close>, and \<^verbatim>\<open>str.zfill\<close>\<close>

definition digit_char :: "nat \<Rightarrow> char" where
  "digit_char d = ''0123456789'' ! d"

fun str_nat :: "nat \<Rightarrow> string" where
  "str_nat n = (if n < 10 then [digit_char n] else str_nat (n div 10) @ [digit_char (n mod 10)])"

declare str_nat.simps [simp del]

definition str_int :: "int \<Rightarrow> string" where
  "str_int i = (if i < 0 then CHR ''-'' # str_nat (nat (- i)) else str_nat (nat i))"

text \<open>
  The parameter \<^verbatim>\<open>months\<close> defaults to \<^verbatim>\<open>None\<close> and is otherwise an integer number of
  months: it is an \<open>int option\<close>. \<open>py_str\<close> is what both \<^verbatim>\<open>str(months)\<close> and
  \<^verbatim>\<open>'{}'.format(months)\<close> render.
\<close>

definition py_str :: "int option \<Rightarrow> string" where
  "py_str months = (case months of None \<Rightarrow> ''None'' | Some n \<Rightarrow> str_int n)"

text \<open>
  \<^verbatim>\<open>s.zfill(width)\<close>: a string of at least \<^verbatim>\<open>width\<close> characters is returned as it is;
  a shorter one is padded with zeros on the left, after a leading sign if there is one.
\<close>

definition zfill :: "nat \<Rightarrow> string \<Rightarrow> string" where
  "zfill width s =
     (if width \<le> length s then s
      else (case s of
              [] \<Rightarrow> replicate width (CHR ''0'')
            | c # rest \<Rightarrow>
                if c = CHR ''+'' \<or> c = CHR ''-''
                then c # replicate (width - length s) (CHR ''0'') @ rest
                else replicate (width - length s) (CHR ''0'') @ s))"

section \<open>The variable attributes of an index (lines 43 to 149)\<close>

text \<open>
  \<^verbatim>\<open>_variable_attributes\<close> returns the dictionary \<^verbatim>\<open>variable_attributes\<close>. Its keys are
  fixed: \<^verbatim>\<open>standard_name\<close>, \<^verbatim>\<open>long_name\<close>, \<^verbatim>\<open>valid_min\<close>, \<^verbatim>\<open>valid_max\<close> and, for two
  of the indices, \<^verbatim>\<open>units\<close>; so the dictionary is a record with an optional field. The
  local \<^verbatim>\<open>variable_name\<close> is not returned on its own: the dictionary carries it as
  \<^verbatim>\<open>standard_name\<close>. The numeric literals are the rationals they denote.
\<close>

record attributes =
  standard_name :: string
  long_name :: string
  valid_min :: real
  valid_max :: real
  units :: "string option"

definition variable_attributes :: "string \<Rightarrow> int option \<Rightarrow> error + attributes" where
  "variable_attributes index_name months =
     (if index_name = ''pet'' then
        Inr \<lparr>standard_name = ''pet'',
             long_name = ''Potential Evapotranspiration (PET), from Thornthwaite's equation'',
             valid_min = 0.0, valid_max = 2000.0, units = Some ''millimeter''\<rparr>
      else if index_name = ''pdsi'' then
        Inr \<lparr>standard_name = ''pdsi'',
             long_name = ''Palmer Drought Severity Index (PDSI)'',
             valid_min = - 10.0, valid_max = 10.0, units = None\<rparr>
      else if index_name = ''scpdsi'' then
        Inr \<lparr>standard_name = ''scpdsi'',
             long_name = ''Self-calibrated Palmer Drought Severity Index (PDSI)'',
             valid_min = - 10.0, valid_max = 10.0, units = None\<rparr>
      else if index_name = ''phdi'' then
        Inr \<lparr>standard_name = ''phdi'',
             long_name = ''Palmer Hydrological Drought Index (PHDI)'',
             valid_min = - 10.0, valid_max = 10.0, units = None\<rparr>
      else if index_name = ''pmdi'' then
        Inr \<lparr>standard_name = ''pmdi'',
             long_name = ''Palmer Modified Drought Index (PMDI)'',
             valid_min = - 10.0, valid_max = 10.0, units = None\<rparr>
      else if index_name = ''zindex'' then
        Inr \<lparr>standard_name = ''zindex'',
             long_name = ''Palmer Z-Index'',
             valid_min = - 10.0, valid_max = 10.0, units = None\<rparr>
      else
        (let variable_name = index_name @ ''_'' @ zfill 2 (py_str months) in
         if index_name = ''pnp'' then
           Inr \<lparr>standard_name = variable_name,
                long_name = ''Percent average precipitation, '' @ py_str months @ ''-month scale'',
                valid_min = 0, valid_max = 10.0, units = Some ''percent of average''\<rparr>
         else if index_name = ''spi_gamma'' then
           Inr \<lparr>standard_name = variable_name,
                long_name = ''SPI (Gamma), '' @ py_str months @ ''-month scale'',
                valid_min = - 3.09, valid_max = 3.09, units = None\<rparr>
         else if index_name = ''spi_pearson'' then
           Inr \<lparr>standard_name = variable_name,
                long_name = ''SPI (Pearson), '' @ py_str months @ ''-month scale'',
                valid_min = - 3.09, valid_max = 3.09, units = None\<rparr>
         else if index_name = ''spei_gamma'' then
           Inr \<lparr>standard_name = variable_name,
                long_name = ''SPEI (Gamma), '' @ py_str months @ ''-month scale'',
                valid_min = - 3.09, valid_max = 3.09, units = None\<rparr>
         else if index_name = ''spei_pearson'' then
           Inr \<lparr>standard_name = variable_name,
                long_name = ''SPEI (Pearson), '' @ py_str months @ ''-month scale'',
                valid_min = - 3.09, valid_max = 3.09, units = None\<rparr>
         else
           Inl (ValueError (index_name @ '' is an unsupported index type''))))"

text \<open>
  The specification's two sets of supported identifiers, its derivation rule for the
  variable name and its table of valid ranges, written from the specification's words so
  that the function above can be compared with them.
\<close>

definition spec_fixed_name_indices :: "string list" where
  "spec_fixed_name_indices = [''pet'', ''pdsi'', ''scpdsi'', ''phdi'', ''pmdi'', ''zindex'']"

definition spec_time_scaled_indices :: "string list" where
  "spec_time_scaled_indices =
     [''pnp'', ''spi_gamma'', ''spi_pearson'', ''spei_gamma'', ''spei_pearson'']"



definition is_digit :: "char \<Rightarrow> bool" where
  "is_digit c = (c \<in> set ''0123456789'')"

definition carries_scale_suffix :: "string \<Rightarrow> string \<Rightarrow> bool" where
  "carries_scale_suffix index_name name =
     (length name = length index_name + 3 \<and>
      take (length index_name) name = index_name \<and>
      name ! length index_name = CHR ''_'' \<and>
      is_digit (name ! (length index_name + 1)) \<and>
      is_digit (name ! (length index_name + 2)))"

section \<open>Masked arrays\<close>

text \<open>
  A stored value is a floating-point number: finite, one of the two infinities, or
  not-a-number. The finite values are the reals they denote, and subtraction of two
  finite values is subtraction of reals: rounding and overflow are outside this model.
  An element of a masked array is either masked (no data) or holds a value; a row read
  from a variable of the dataset is such an array, the dataset's fill value being read
  as a masked element.
\<close>

datatype float64 = Finite real | PosInf | NegInf | NaN

definition isfinite :: "float64 \<Rightarrow> bool" where
  "isfinite x = (case x of Finite _ \<Rightarrow> True | _ \<Rightarrow> False)"

datatype melem = Masked | Data float64

type_synonym masked_array = "melem list"

text \<open>
  \<^verbatim>\<open>np.ma.masked_invalid(a, copy=False)\<close> masks every element that is not finite and keeps
  the mask the array already has.
\<close>

definition masked_invalid :: "masked_array \<Rightarrow> masked_array" where
  "masked_invalid a =
     map (\<lambda>e. case e of Masked \<Rightarrow> Masked
                | Data x \<Rightarrow> if isfinite x then Data x else Masked) a"

fun float_sub :: "float64 \<Rightarrow> float64 \<Rightarrow> float64" where
  "float_sub (Finite a) (Finite b) = Finite (a - b)"
| "float_sub NaN _ = NaN"
| "float_sub _ NaN = NaN"
| "float_sub PosInf PosInf = NaN"
| "float_sub NegInf NegInf = NaN"
| "float_sub PosInf _ = PosInf"
| "float_sub NegInf _ = NegInf"
| "float_sub (Finite a) PosInf = NegInf"
| "float_sub (Finite a) NegInf = PosInf"

text \<open>
  The subtraction of masked arrays masks a position as soon as one operand is masked
  there. Two one-dimensional operands of different lengths are broadcast when one of
  them has length one, and raise \<^verbatim>\<open>ValueError\<close> otherwise.
\<close>

fun elem_sub :: "melem \<Rightarrow> melem \<Rightarrow> melem" where
  "elem_sub (Data a) (Data b) = Data (float_sub a b)"
| "elem_sub _ _ = Masked"

definition ma_subtract :: "masked_array \<Rightarrow> masked_array \<Rightarrow> error + masked_array" where
  "ma_subtract a b =
     (if length a = length b then Inr (map2 elem_sub a b)
      else if length a = 1 then Inr (map (elem_sub (hd a)) b)
      else if length b = 1 then Inr (map (\<lambda>x. elem_sub x (hd b)) a)
      else Inl (ValueError ''operands could not be broadcast together''))"

section \<open>The dataset\<close>

text \<open>
  A division identifier is an integer or a string. The dictionary \<^verbatim>\<open>diffs\<close> is keyed
  both by the position of a division (a Python integer) and by its identifier; an integer
  identifier and a position of the same value are one and the same key of a Python
  dictionary, which \<open>IntKey\<close> reproduces.
\<close>

datatype key = IntKey int | StrKey string

text \<open>
  A data variable of the dataset has a type code, the names of its dimensions, a fill
  value and its rows, one per index of its first dimension. The dataset holds the values
  of its coordinate variables \<^verbatim>\<open>division\<close> and \<^verbatim>\<open>time\<close> and its data variables by name.
\<close>

record variable =
  dtype :: string
  dimensions :: "string list"
  fill_value :: "float64 option"
  rows :: "masked_array list"

record dataset =
  division :: "key list"
  time :: "int list"
  variables :: "string \<rightharpoonup> variable"

text \<open>
  \<^verbatim>\<open>dataset.variables[name][division_index, :]\<close>: \<^verbatim>\<open>KeyError\<close> when the dataset has no
  variable of that name, \<^verbatim>\<open>IndexError\<close> when the variable has no such row.
\<close>

definition read_row :: "dataset \<Rightarrow> string \<Rightarrow> nat \<Rightarrow> error + masked_array" where
  "read_row ds name division_index =
     (case variables ds name of
        None \<Rightarrow> Inl (KeyError name)
      | Some v \<Rightarrow>
          if division_index < length (rows v) then Inr (rows v ! division_index)
          else Inl IndexError)"

text \<open>
  \<^verbatim>\<open>dataset.createVariable(name, netcdf_data_type, ('division', 'time',), fill_value=np.NaN)\<close>:
  the new variable has one row per division and one column per time step, and every
  element is the fill value, which reads as masked.
\<close>

definition createVariable :: "dataset \<Rightarrow> string \<Rightarrow> variable" where
  "createVariable ds netcdf_data_type =
     \<lparr>dtype = netcdf_data_type, dimensions = [''division'', ''time''],
      fill_value = Some NaN,
      rows = replicate (length (division ds)) (replicate (length (time ds)) Masked)\<rparr>"

text \<open>
  \<^verbatim>\<open>variable[division_index, :] = array\<close> replaces one row. The dimensions of a variable have
  a fixed size here: a row that does not exist raises \<^verbatim>\<open>IndexError\<close>, and an array whose
  length is not the length of the row raises \<^verbatim>\<open>ValueError\<close>.
\<close>

definition assign_row :: "variable \<Rightarrow> nat \<Rightarrow> masked_array \<Rightarrow> error + variable" where
  "assign_row v division_index data_array =
     (if \<not> division_index < length (rows v) then Inl IndexError
      else if length (rows v ! division_index) \<noteq> length data_array
      then Inl (ValueError ''shape mismatch'')
      else Inr (v\<lparr>rows := (rows v)[division_index := data_array]\<rparr>))"

section \<open>Computing the differences (lines 300 to 338)\<close>

text \<open>
  The dictionary \<^verbatim>\<open>diffs\<close> keeps its keys in the order of their first insertion; an
  assignment to a key it already has replaces the value in place.
\<close>

type_synonym diffs_dict = "(key \<times> masked_array) list"

fun dict_set :: "('k \<times> 'v) list \<Rightarrow> 'k \<Rightarrow> 'v \<Rightarrow> ('k \<times> 'v) list" where
  "dict_set [] k v = [(k, v)]"
| "dict_set ((k', v') # kvs) k v =
     (if k' = k then (k', v) # kvs else (k', v') # dict_set kvs k v)"

text \<open>
  Lines 312 to 316, for the pair \<^verbatim>\<open>var_names\<close> and one position of the division list:
  both rows are read and masked, and the second is subtracted from the first.
\<close>

definition division_differences ::
  "dataset \<Rightarrow> string \<times> string \<Rightarrow> nat \<Rightarrow> error + masked_array" where
  "division_differences ds var_names division_index =
     (case read_row ds (fst var_names) division_index of
        Inl e \<Rightarrow> Inl e
      | Inr row_CMB \<Rightarrow>
          (case read_row ds (snd var_names) division_index of
             Inl e \<Rightarrow> Inl e
           | Inr row_NIDIS \<Rightarrow>
               (let data_CMB = masked_invalid row_CMB;
                    data_NIDIS = masked_invalid row_NIDIS
                in ma_subtract data_CMB data_NIDIS)))"

text \<open>
  The loop of line 307 over \<^verbatim>\<open>enumerate(dataset.variables['division'][:])\<close>. The two
  plotting calls of lines 320 to 335 only draw and save images and are left out.
\<close>

fun diffs_loop ::
  "dataset \<Rightarrow> string \<times> string \<Rightarrow> nat \<Rightarrow> key list \<Rightarrow> diffs_dict \<Rightarrow> error + diffs_dict" where
  "diffs_loop ds var_names division_index [] diffs_dict = Inr diffs_dict"
| "diffs_loop ds var_names division_index (division_id # rest) diffs_dict =
     (case division_differences ds var_names division_index of
        Inl e \<Rightarrow> Inl e
      | Inr differences \<Rightarrow>
          diffs_loop ds var_names (Suc division_index) rest
            (dict_set (dict_set diffs_dict (IntKey (int division_index)) differences)
               division_id differences))"

definition compute_diffs :: "dataset \<Rightarrow> string \<times> string \<Rightarrow> error + diffs_dict" where
  "compute_diffs ds var_names = diffs_loop ds var_names 0 (division ds) []"

section \<open>Storing the differences (lines 340 to 378)\<close>

text \<open>
  What a run does to its surroundings while it stores the differences is a list of
  events: a message given to \<^verbatim>\<open>logger.info\<close>, the assignment of an array to a row of the
  variable, and the two operations of the module's \<^verbatim>\<open>lock\<close> (line 39).
\<close>

datatype event =
  Info string
| Assign nat masked_array
| LockAcquire
| LockRelease

definition unexpected_size_message :: "nat \<Rightarrow> nat \<Rightarrow> nat \<Rightarrow> string" where
  "unexpected_size_message division_index times_size array_size =
     ''Unexpected size of data array for division index '' @ str_nat division_index @ '' -- '' @
     ''expected '' @ str_nat times_size @ '' time steps but the array contains '' @
     str_nat array_size"

text \<open>
  Lines 340 to 356. An existing variable of that name is taken as it is. Otherwise a
  variable is created, with the type that \<^verbatim>\<open>netcdf_utils.find_netcdf_datatype\<close> finds for
  the first element of an array drawn by \<^verbatim>\<open>random.choice\<close> from the values of \<^verbatim>\<open>diffs\<close>.
  \<^verbatim>\<open>find_netcdf_datatype\<close> is defined in another module and is a parameter here, as is the
  number \<open>choice\<close> that stands for the random draw. \<^verbatim>\<open>random.choice\<close> raises
  \<^verbatim>\<open>IndexError\<close> on an empty list, and so does the index \<^verbatim>\<open>[0]\<close> on an empty array.
\<close>

definition provision ::
  "(melem \<Rightarrow> error + string) \<Rightarrow> nat \<Rightarrow> dataset \<Rightarrow> diffs_dict \<Rightarrow> string \<Rightarrow> error + variable" where
  "provision find_netcdf_datatype choice ds diffs_dict diff_variable_name =
     (case variables ds diff_variable_name of
        Some variable \<Rightarrow> Inr variable
      | None \<Rightarrow>
          (case map snd diffs_dict of
             [] \<Rightarrow> Inl IndexError
           | a # as \<Rightarrow>
               (case (a # as) ! (choice mod length (a # as)) of
                  [] \<Rightarrow> Inl IndexError
                | x # _ \<Rightarrow>
                    (case find_netcdf_datatype x of
                       Inl e \<Rightarrow> Inl e
                     | Inr netcdf_data_type \<Rightarrow> Inr (createVariable ds netcdf_data_type)))))"

text \<open>
  The loop of line 363 over the divisions of the dataset, from the position
  \<open>division_index\<close> on. It returns the variable after the assignments and the events in
  the order in which they happened.
\<close>

fun write_rows ::
  "diffs_dict \<Rightarrow> nat \<Rightarrow> nat \<Rightarrow> key list \<Rightarrow> variable \<Rightarrow> error + variable \<times> event list" where
  "write_rows diffs_dict times_size division_index [] variable = Inr (variable, [])"
| "write_rows diffs_dict times_size division_index (division_id # rest) variable =
     (case map_of diffs_dict (IntKey (int division_index)) of
        None \<Rightarrow> write_rows diffs_dict times_size (Suc division_index) rest variable
      | Some data_array \<Rightarrow>
          if length data_array = times_size then
            (case assign_row variable division_index data_array of
               Inl e \<Rightarrow> Inl e
             | Inr variable' \<Rightarrow>
                 (case write_rows diffs_dict times_size (Suc division_index) rest variable' of
                    Inl e \<Rightarrow> Inl e
                  | Inr (variable'', events) \<Rightarrow>
                      Inr (variable'', Assign division_index data_array # events)))
          else
            (case write_rows diffs_dict times_size (Suc division_index) rest variable of
               Inl e \<Rightarrow> Inl e
             | Inr (variable', events) \<Rightarrow>
                 Inr (variable',
                      Info (unexpected_size_message division_index times_size
                              (length data_array)) # events)))"

text \<open>
  Lines 340 to 378 for one index label. The result is the dataset with the variable
  \<^verbatim>\<open>'diffs_' + index\<close> as the loop left it, and the events of the loop. A run that raises
  returns the exception only.
\<close>

definition persist ::
  "(melem \<Rightarrow> error + string) \<Rightarrow> nat \<Rightarrow> dataset \<Rightarrow> diffs_dict \<Rightarrow> string \<Rightarrow>
     error + dataset \<times> event list" where
  "persist find_netcdf_datatype choice ds diffs_dict index =
     (let diff_variable_name = ''diffs_'' @ index in
      case provision find_netcdf_datatype choice ds diffs_dict diff_variable_name of
        Inl e \<Rightarrow> Inl e
      | Inr variable \<Rightarrow>
          (let times_size = length (time ds) in
           case write_rows diffs_dict times_size 0 (division ds) variable of
             Inl e \<Rightarrow> Inl e
           | Inr (variable', events) \<Rightarrow>
               Inr (ds\<lparr>variables := (variables ds)(diff_variable_name \<mapsto> variable')\<rparr>,
                    events)))"

text \<open>
  One round of the loop of line 293: the differences of one entry of
  \<^verbatim>\<open>comparison_arrays\<close> are computed and stored.
\<close>

definition comparison_arrays :: "(string \<times> string \<times> string) list" where
  "comparison_arrays =
     [(''PDSI'', ''wrcc_pdsi'', ''pdsi''),
      (''PHDI'', ''wrcc_phdi'', ''phdi''),
      (''PMDI'', ''wrcc_pmdi'', ''pmdi''),
      (''Z-Index'', ''cmb_zndx'', ''zindex'')]"


section \<open>The dataset of the end-to-end scenario\<close>

definition series :: "real list \<Rightarrow> masked_array" where
  "series xs = map (\<lambda>x. Data (Finite x)) xs"

definition example_variable :: "real list list \<Rightarrow> variable" where
  "example_variable xss =
     \<lparr>dtype = ''f8'', dimensions = [''division'', ''time''], fill_value = Some NaN,
      rows = map series xss\<rparr>"

definition example_dataset :: dataset where
  "example_dataset =
     \<lparr>division = [IntKey 101, IntKey 102],
      time = [0, 1, 2, 3],
      variables = [''cmb_zndx'' \<mapsto> example_variable [[1, 2, 3, 4], [5, 6, 7, 8]],
                   ''zindex'' \<mapsto> example_variable [[1, 1, 2, 5], [5, 6, 7, 9]]]\<rparr>"


text \<open>
  A dataset with one division and three time steps: the reference row holds a
  not-a-number at its second position, and the candidate row is masked at its third.
\<close>

definition gap_dataset :: dataset where
  "gap_dataset =
     \<lparr>division = [IntKey 101],
      time = [0, 1, 2],
      variables =
        [''cmb_zndx'' \<mapsto> \<lparr>dtype = ''f8'', dimensions = [''division'', ''time''],
                          fill_value = Some NaN,
                          rows = [[Data (Finite 1), Data NaN, Data (Finite 3)]]\<rparr>,
         ''zindex'' \<mapsto> \<lparr>dtype = ''f8'', dimensions = [''division'', ''time''],
                        fill_value = Some NaN,
                        rows = [[Data (Finite 1), Data (Finite 1), Masked]]\<rparr>]\<rparr>"

text \<open>
  The differences of the scenario as the loop of line 307 leaves them, a type finder
  that answers \<^verbatim>\<open>f8\<close> for every value, and the dataset after the differences have been
  stored under the label \<^verbatim>\<open>Z-Index\<close>.
\<close>

definition example_diffs :: diffs_dict where
  "example_diffs =
     [(IntKey 0, series [0, 1, 1, - 1]), (IntKey 101, series [0, 1, 1, - 1]),
      (IntKey 1, series [0, 0, 0, - 1]), (IntKey 102, series [0, 0, 0, - 1])]"

definition find_f8 :: "melem \<Rightarrow> error + string" where
  "find_f8 x = Inr ''f8''"

definition example_stored :: dataset where
  "example_stored =
     example_dataset\<lparr>variables := (variables example_dataset)
       (''diffs_Z-Index'' \<mapsto> example_variable [[0, 1, 1, - 1], [0, 0, 0, - 1]])\<rparr>"

section \<open>Notions used to state the properties\<close>

text \<open>
  An element of a row is missing when it is masked or holds a value that is not finite.
\<close>

definition missing :: "melem \<Rightarrow> bool" where
  "missing e = (case e of Masked \<Rightarrow> True | Data x \<Rightarrow> \<not> isfinite x)"

text \<open>
  The array that the loop of line 363 assigns to the row \<open>j\<close>, if it assigns one: the
  entry of the dictionary at the position \<open>j\<close> when its length is the number of time
  steps.
\<close>

definition written_at :: "diffs_dict \<Rightarrow> nat \<Rightarrow> nat \<Rightarrow> masked_array option" where
  "written_at dd T j =
     (case map_of dd (IntKey (int j)) of
        None \<Rightarrow> None
      | Some a \<Rightarrow> if length a = T then Some a else None)"

section \<open>Properties of the variable attributes\<close>

subsection \<open>Rendering a scale\<close>







subsection \<open>Unsupported identifiers\<close>

text \<open>
  Claim C3. For an identifier that is neither one of the six fixed-name indices nor one
  of the five time-scaled indices, and for every value of \<^verbatim>\<open>months\<close>,
  \<^verbatim>\<open>_variable_attributes\<close> returns no dictionary: it raises \<^verbatim>\<open>ValueError\<close> with a message
  that starts with the identifier.
\<close>

theorem unsupported_index_raises:
  assumes "index_name \<notin> set spec_fixed_name_indices"
    and "index_name \<notin> set spec_time_scaled_indices"
  shows "variable_attributes index_name months =
           Inl (ValueError (index_name @ '' is an unsupported index type''))"
  using assms
  by (simp add: variable_attributes_def spec_fixed_name_indices_def
      spec_time_scaled_indices_def Let_def)

text \<open>The identifier \<^verbatim>\<open>bogus_index\<close> without a scale is such a call.\<close>

theorem unsupported_index_raises_witness:
  "''bogus_index'' \<notin> set spec_fixed_name_indices \<and>
   ''bogus_index'' \<notin> set spec_time_scaled_indices \<and>
   variable_attributes ''bogus_index'' None =
     Inl (ValueError ''bogus_index is an unsupported index type'')"
  using unsupported_index_raises [of "''bogus_index''" None]
  by (simp add: spec_fixed_name_indices_def spec_time_scaled_indices_def)

subsection \<open>Supported identifiers\<close>





subsection \<open>A time-scaled identifier without a scale\<close>

text \<open>
  Claim C9. For each time-scaled index a call without a scale does not return a
  dictionary whose variable name ends in an underscore and two digits: the call returns
  the dictionary with the name of the identifier followed by \<^verbatim>\<open>_None\<close>.
\<close>

theorem scale_required_for_suffix:
  "\<forall>index_name \<in> set spec_time_scaled_indices.
     \<exists>r. variable_attributes index_name None = Inr r \<and>
         standard_name r = index_name @ ''_None'' \<and>
         \<not> carries_scale_suffix index_name (standard_name r)"
  by (simp add: spec_time_scaled_indices_def variable_attributes_def Let_def py_str_def
      zfill_def carries_scale_suffix_def)

text \<open>The call for \<^verbatim>\<open>spi_gamma\<close> without a scale.\<close>

theorem scale_required_for_suffix_witness:
  "''spi_gamma'' \<in> set spec_time_scaled_indices \<and>
   (\<exists>r. variable_attributes ''spi_gamma'' None = Inr r \<and>
        standard_name r = ''spi_gamma_None'' \<and>
        \<not> carries_scale_suffix ''spi_gamma'' (standard_name r))"
proof -
  have scaled: "''spi_gamma'' \<in> set spec_time_scaled_indices"
    by (simp add: spec_time_scaled_indices_def)
  with scale_required_for_suffix show ?thesis by fastforce
qed

section \<open>Properties of the computed differences\<close>

subsection \<open>The scenario, evaluated\<close>

lemma ex_diff0: "division_differences example_dataset (''cmb_zndx'', ''zindex'') 0 = Inr (series [0, 1, 1, -1])"
  by (simp add: division_differences_def example_dataset_def read_row_def example_variable_def
     series_def masked_invalid_def isfinite_def ma_subtract_def)

lemma ex_diff1: "division_differences example_dataset (''cmb_zndx'', ''zindex'') (Suc 0) = Inr (series [0, 0, 0, -1])"
  by (simp add: division_differences_def example_dataset_def read_row_def example_variable_def
     series_def masked_invalid_def isfinite_def ma_subtract_def)

lemma ex_division: "division example_dataset = [IntKey 101, IntKey 102]"
  by (simp add: example_dataset_def)

lemma ex_compute: "compute_diffs example_dataset (''cmb_zndx'', ''zindex'') =
   Inr [(IntKey 0, series [0, 1, 1, -1]), (IntKey 101, series [0, 1, 1, -1]),
        (IntKey 1, series [0, 0, 0, -1]), (IntKey 102, series [0, 0, 0, -1])]"
  by (simp add: compute_diffs_def ex_division ex_diff0 ex_diff1)

subsection \<open>Rows without missing values\<close>

lemma masked_invalid_series: "masked_invalid (series xs) = series xs"
  by (simp add: masked_invalid_def series_def isfinite_def)

lemma length_series: "length (series xs) = length xs"
  by (simp add: series_def)

lemma map2_series: "length A = length B \<Longrightarrow> map2 elem_sub (series A) (series B) = series (map2 (-) A B)"
  by (induction A B rule: list_induct2) (simp_all add: series_def)

text \<open>
  Claim C1, as the source has it. For a reference row and a candidate row of the same
  length without missing values, the difference computed for the division is the
  reference value minus the candidate value at every position, in the order of the rows
  (line 316 subtracts \<^verbatim>\<open>data_NIDIS\<close>, the second variable of the pair, from \<^verbatim>\<open>data_CMB\<close>,
  the first).
\<close>

theorem differences_reference_minus_candidate:
  assumes "read_row ds reference_var i = Inr (series A)"
    and "read_row ds candidate_var i = Inr (series B)"
    and "length A = length B"
  shows "division_differences ds (reference_var, candidate_var) i =
           Inr (series (map2 (-) A B))"
  using assms
  by (simp add: division_differences_def masked_invalid_series ma_subtract_def
      map2_series length_series Let_def)

text \<open>
  In the scenario with the divisions 101 and 102 the differences are 0, 1, 1, -1 and
  0, 0, 0, -1.
\<close>

theorem differences_reference_minus_candidate_witness:
  "read_row example_dataset ''cmb_zndx'' 0 = Inr (series [1, 2, 3, 4]) \<and>
   read_row example_dataset ''zindex'' 0 = Inr (series [1, 1, 2, 5]) \<and>
   length [1, 2, 3, 4 :: real] = length [1, 1, 2, 5 :: real] \<and>
   division_differences example_dataset (''cmb_zndx'', ''zindex'') 0 =
     Inr (series [0, 1, 1, - 1]) \<and>
   read_row example_dataset ''cmb_zndx'' 1 = Inr (series [5, 6, 7, 8]) \<and>
   read_row example_dataset ''zindex'' 1 = Inr (series [5, 6, 7, 9]) \<and>
   division_differences example_dataset (''cmb_zndx'', ''zindex'') 1 =
     Inr (series [0, 0, 0, - 1])"
proof -
  have r0: "read_row example_dataset ''cmb_zndx'' 0 = Inr (series [1, 2, 3, 4])"
    and c0: "read_row example_dataset ''zindex'' 0 = Inr (series [1, 1, 2, 5])"
    and r1: "read_row example_dataset ''cmb_zndx'' 1 = Inr (series [5, 6, 7, 8])"
    and c1: "read_row example_dataset ''zindex'' 1 = Inr (series [5, 6, 7, 9])"
    by (simp_all add: read_row_def example_dataset_def example_variable_def)
  have len: "length [1, 2, 3, 4 :: real] = length [1, 1, 2, 5 :: real]"
    and len': "length [5, 6, 7, 8 :: real] = length [5, 6, 7, 9 :: real]" by simp_all
  from differences_reference_minus_candidate [OF r0 c0 len]
    differences_reference_minus_candidate [OF r1 c1 len'] r0 c0 r1 c1
  show ?thesis by simp
qed

text \<open>
  The claim as written asks for the candidate minus the reference, that is 0, -1, -1, 1
  and 0, 0, 0, 1 in the scenario; the dictionary computed there holds the opposite signs.
\<close>

theorem candidate_minus_reference_counterexample:
  "compute_diffs example_dataset (''cmb_zndx'', ''zindex'') =
     Inr [(IntKey 0, series [0, 1, 1, - 1]), (IntKey 101, series [0, 1, 1, - 1]),
          (IntKey 1, series [0, 0, 0, - 1]), (IntKey 102, series [0, 0, 0, - 1])] \<and>
   series [0, 1, 1, - 1] \<noteq> series [0, - 1, - 1, 1] \<and>
   series [0, 0, 0, - 1] \<noteq> series [0, 0, 0, 1]"
  by (simp add: ex_compute) (simp add: series_def)

subsection \<open>Missing values\<close>

lemma mask_then_sub_Masked:
  "(elem_sub (case x of Masked \<Rightarrow> Masked | Data u \<Rightarrow> if isfinite u then Data u else Masked)
             (case y of Masked \<Rightarrow> Masked | Data u \<Rightarrow> if isfinite u then Data u else Masked)
      = Masked) = (missing x \<or> missing y)"
  by (cases x; cases y) (auto simp: missing_def isfinite_def split: float64.splits)

text \<open>
  Claim C5. For a reference row and a candidate row of the same length, the difference
  of the division is computed, has that length, and is masked at a position exactly when
  the reference or the candidate is missing there: a missing operand never yields a
  number.
\<close>

theorem missing_propagates:
  assumes "read_row ds reference_var i = Inr a"
    and "read_row ds candidate_var i = Inr b"
    and "length a = length b"
  shows "\<exists>d. division_differences ds (reference_var, candidate_var) i = Inr d \<and>
             length d = length a \<and>
             (\<forall>p<length a. (d ! p = Masked) = (missing (a ! p) \<or> missing (b ! p)))"
proof -
  let ?d = "map2 elem_sub (masked_invalid a) (masked_invalid b)"
  from assms have "division_differences ds (reference_var, candidate_var) i = Inr ?d"
    by (simp add: division_differences_def ma_subtract_def masked_invalid_def Let_def)
  moreover from assms(3) have "length ?d = length a"
    by (simp add: masked_invalid_def)
  moreover have "\<forall>p<length a. (?d ! p = Masked) = (missing (a ! p) \<or> missing (b ! p))"
    using assms(3) by (simp add: masked_invalid_def mask_then_sub_Masked)
  ultimately show ?thesis by blast
qed

text \<open>
  A reference row with a not-a-number at position 1 and a candidate row masked at
  position 2: the difference holds a number at position 0 only.
\<close>

theorem missing_propagates_witness:
  "read_row gap_dataset ''cmb_zndx'' 0 = Inr [Data (Finite 1), Data NaN, Data (Finite 3)] \<and>
   read_row gap_dataset ''zindex'' 0 = Inr [Data (Finite 1), Data (Finite 1), Masked] \<and>
   missing (Data NaN) \<and> missing Masked \<and>
   (\<exists>d. division_differences gap_dataset (''cmb_zndx'', ''zindex'') 0 = Inr d \<and>
        length d = 3 \<and> d ! 0 \<noteq> Masked \<and> d ! 1 = Masked \<and> d ! 2 = Masked)"
proof -
  let ?a = "[Data (Finite 1), Data NaN, Data (Finite 3)]"
  let ?b = "[Data (Finite 1), Data (Finite 1), Masked]"
  have r: "read_row gap_dataset ''cmb_zndx'' 0 = Inr ?a"
    and c: "read_row gap_dataset ''zindex'' 0 = Inr ?b"
    by (simp_all add: read_row_def gap_dataset_def)
  have len: "length ?a = length ?b" by simp
  have m: "missing (Data NaN)" "missing Masked" "\<not> missing (Data (Finite 1))"
    by (simp_all add: missing_def isfinite_def)
  from missing_propagates [OF r c len] obtain d where
    d: "division_differences gap_dataset (''cmb_zndx'', ''zindex'') 0 = Inr d"
    "length d = length ?a"
    "\<forall>p<length ?a. (d ! p = Masked) = (missing (?a ! p) \<or> missing (?b ! p))"
    by blast
  from d(3) [rule_format, of 0] d(3) [rule_format, of 1] d(3) [rule_format, of 2] m
  have "d ! 0 \<noteq> Masked \<and> d ! 1 = Masked \<and> d ! 2 = Masked" by simp
  with r c m d(1,2) show ?thesis by auto
qed

subsection \<open>The keys of the dictionary\<close>















section \<open>Properties of the stored differences\<close>

subsection \<open>The loop over the divisions\<close>

lemma assign_row_Inr:
  assumes "assign_row v i a = Inr v'"
  shows "v' = v\<lparr>rows := (rows v)[i := a]\<rparr>" and "i < length (rows v)"
    and "length (rows v ! i) = length a"
  using assms by (auto simp: assign_row_def split: if_splits)

lemma write_rows_Cons_cases:
  assumes "write_rows dd T i (a # rest) v = Inr (v', ev)"
  obtains
    (absent) "map_of dd (IntKey (int i)) = None"
      "write_rows dd T (Suc i) rest v = Inr (v', ev)"
  | (written) x va ev0 where "map_of dd (IntKey (int i)) = Some x" "length x = T"
      "assign_row v i x = Inr va" "write_rows dd T (Suc i) rest va = Inr (v', ev0)"
      "ev = Assign i x # ev0"
  | (skipped) x ev0 where "map_of dd (IntKey (int i)) = Some x" "length x \<noteq> T"
      "write_rows dd T (Suc i) rest v = Inr (v', ev0)"
      "ev = Info (unexpected_size_message i T (length x)) # ev0"
  using assms by (auto split: option.splits if_splits sum.splits prod.splits)

lemma write_rows_fields:
  assumes "write_rows dd T i ids v = Inr (v', ev)"
  shows "v' = v\<lparr>rows := rows v'\<rparr> \<and> map length (rows v') = map length (rows v)"
  using assms
proof (induction ids arbitrary: i v ev)
  case Nil
  then show ?case by simp
next
  case (Cons a rest)
  from Cons.prems show ?case
  proof (cases rule: write_rows_Cons_cases)
    case absent
    from Cons.IH [OF absent(2)] show ?thesis .
  next
    case (written x va ev0)
    note va = assign_row_Inr [OF written(3)]
    from va have "map length (rows va) = map length (rows v)"
      by (simp add: map_update list_update_same_conv)
    with Cons.IH [OF written(4)] va(1) show ?thesis
      by (metis variable.surjective variable.update_convs(4) variable.select_convs(1-3))
  next
    case (skipped x ev0)
    from Cons.IH [OF skipped(3)] show ?thesis .
  qed
qed

lemma write_rows_rows:
  assumes "write_rows dd T i ids v = Inr (v', ev)"
  shows "rows v' ! j =
           (if i \<le> j \<and> j < i + length ids \<and> written_at dd T j \<noteq> None
            then the (written_at dd T j) else rows v ! j)"
  using assms
proof (induction ids arbitrary: i v ev)
  case Nil
  then show ?case by auto
next
  case (Cons a rest)
  from Cons.prems show ?case
  proof (cases rule: write_rows_Cons_cases)
    case absent
    from absent(1) have "written_at dd T i = None" by (simp add: written_at_def)
    with Cons.IH [OF absent(2)] show ?thesis
      by (cases "j = i") auto
  next
    case (written x va ev0)
    note va = assign_row_Inr [OF written(3)]
    from written(1,2) have w: "written_at dd T i = Some x" by (simp add: written_at_def)
    from va have "rows va ! j = (if j = i then x else rows v ! j)" by simp
    with Cons.IH [OF written(4)] w show ?thesis
      by (cases "j = i") auto
  next
    case (skipped x ev0)
    from skipped(1,2) have "written_at dd T i = None" by (simp add: written_at_def)
    with Cons.IH [OF skipped(3)] show ?thesis
      by (cases "j = i") auto
  qed
qed




lemma write_rows_idem:
  assumes "write_rows dd T i ids v = Inr (v', ev)"
  shows "write_rows dd T i ids v' = Inr (v', ev)"
  using assms
proof (induction ids arbitrary: i v ev)
  case Nil
  then show ?case by simp
next
  case (Cons a rest)
  from Cons.prems show ?case
  proof (cases rule: write_rows_Cons_cases)
    case absent
    with Cons.IH [OF absent(2)] show ?thesis by simp
  next
    case (written x va ev0)
    note va = assign_row_Inr [OF written(3)]
    from write_rows_rows [OF written(4), of i] va have row: "rows v' ! i = x" by simp
    from write_rows_fields [OF written(4)] va
    have len: "length (rows v') = length (rows v)"
      by (metis length_list_update length_map variable.select_convs(4) variable.surjective
          variable.update_convs(4))
    from row have "(rows v')[i := x] = rows v'" by (metis list_update_id)
    then have "v'\<lparr>rows := (rows v')[i := x]\<rparr> = v'" by simp
    with row len va(2) have "assign_row v' i x = Inr v'" by (simp add: assign_row_def)
    with Cons.IH [OF written(4)] written show ?thesis by simp
  next
    case (skipped x ev0)
    with Cons.IH [OF skipped(3)] show ?thesis by simp
  qed
qed

subsection \<open>Provision of the variable\<close>

lemma persist_Inr:
  assumes "persist f c ds dd index = Inr (ds', ev)"
  obtains v0 v' where "provision f c ds dd (''diffs_'' @ index) = Inr v0"
    and "write_rows dd (length (time ds)) 0 (division ds) v0 = Inr (v', ev)"
    and "ds' = ds\<lparr>variables := (variables ds)(''diffs_'' @ index \<mapsto> v')\<rparr>"
  using assms by (auto simp: persist_def Let_def split: sum.splits prod.splits)

lemma provision_existing:
  "variables ds name = Some v \<Longrightarrow> provision f c ds dd name = Inr v"
  by (simp add: provision_def)

lemma provision_Inr:
  assumes "provision f c ds dd name = Inr v0"
  shows "variables ds name = Some v0 \<or>
         variables ds name = None \<and> (\<exists>t. v0 = createVariable ds t)"
  using assms
  by (auto simp: provision_def split: option.splits list.splits sum.splits)

lemma ex_stored_division: "division example_stored = [IntKey 101, IntKey 102]"
  by (simp add: example_stored_def example_dataset_def)

lemma ex_persist:
  "persist find_f8 0 example_dataset example_diffs ''Z-Index'' =
     Inr (example_stored, [Assign 0 (series [0, 1, 1, - 1]), Assign 1 (series [0, 0, 0, - 1])])"
  by (simp add: persist_def provision_def example_dataset_def example_diffs_def find_f8_def
      createVariable_def assign_row_def example_stored_def example_variable_def series_def
      Let_def)

subsection \<open>Arrays of an unexpected size\<close>



subsection \<open>Storing twice\<close>

text \<open>
  Claim C6. When storing the differences under a label succeeds, storing the same
  differences under the same label in the resulting dataset succeeds too, whatever the type
  finder and the random draw, and returns that dataset unchanged, with the same events. The
  variables of the dataset after the first run are those before it and the variable
  \<^verbatim>\<open>'diffs_' + index\<close>. A variable of that name that exists before a run is the one the
  run uses, and its type, dimensions, fill value and the lengths of its rows are unchanged.
\<close>

theorem persist_idempotent:
  assumes "persist find_netcdf_datatype choice ds dd index = Inr (ds1, events)"
  shows "persist find_netcdf_datatype' choice' ds1 dd index = Inr (ds1, events) \<and>
         dom (variables ds1) = insert (''diffs_'' @ index) (dom (variables ds)) \<and>
         (\<forall>v. variables ds (''diffs_'' @ index) = Some v \<longrightarrow>
            provision find_netcdf_datatype choice ds dd (''diffs_'' @ index) = Inr v \<and>
            (\<exists>v'. variables ds1 (''diffs_'' @ index) = Some v' \<and>
                  dtype v' = dtype v \<and> dimensions v' = dimensions v \<and>
                  fill_value v' = fill_value v \<and>
                  map length (rows v') = map length (rows v)))"
proof -
  let ?name = "''diffs_'' @ index"
  from assms obtain v0 v' where
    prov: "provision find_netcdf_datatype choice ds dd ?name = Inr v0"
    and run: "write_rows dd (length (time ds)) 0 (division ds) v0 = Inr (v', events)"
    and ds1: "ds1 = ds\<lparr>variables := (variables ds)(?name \<mapsto> v')\<rparr>"
    by (rule persist_Inr)
  from ds1 have found: "variables ds1 ?name = Some v'" by simp
  then have prov': "provision find_netcdf_datatype' choice' ds1 dd ?name = Inr v'"
    by (rule provision_existing)
  from write_rows_idem [OF run] ds1
  have run': "write_rows dd (length (time ds1)) 0 (division ds1) v' = Inr (v', events)" by simp
  from ds1 have same: "ds1\<lparr>variables := (variables ds1)(?name \<mapsto> v')\<rparr> = ds1" by simp
  from prov' run' same
  have again: "persist find_netcdf_datatype' choice' ds1 dd index = Inr (ds1, events)"
    by (simp add: persist_def Let_def)
  from ds1 have doms: "dom (variables ds1) = insert ?name (dom (variables ds))" by simp
  have reuse: "\<forall>v. variables ds ?name = Some v \<longrightarrow>
      provision find_netcdf_datatype choice ds dd ?name = Inr v \<and>
      (\<exists>v'. variables ds1 ?name = Some v' \<and> dtype v' = dtype v \<and>
            dimensions v' = dimensions v \<and> fill_value v' = fill_value v \<and>
            map length (rows v') = map length (rows v))"
  proof (intro allI impI)
    fix v assume v: "variables ds ?name = Some v"
    then have pv: "provision find_netcdf_datatype choice ds dd ?name = Inr v"
      by (rule provision_existing)
    with prov have "v0 = v" by simp
    with write_rows_fields [OF run]
    have eq: "v' = v\<lparr>rows := rows v'\<rparr>" and lens: "map length (rows v') = map length (rows v)"
      by simp_all
    from eq have "dtype v' = dtype v \<and> dimensions v' = dimensions v \<and> fill_value v' = fill_value v"
      by (metis variable.select_convs(1-3) variable.surjective variable.update_convs(4))
    with pv found lens show "provision find_netcdf_datatype choice ds dd ?name = Inr v \<and>
      (\<exists>v'. variables ds1 ?name = Some v' \<and> dtype v' = dtype v \<and>
            dimensions v' = dimensions v \<and> fill_value v' = fill_value v \<and>
            map length (rows v') = map length (rows v))" by simp
  qed
  from again doms reuse show ?thesis by simp
qed

text \<open>
  The differences of the scenario, stored once in the dataset of the scenario and once
  more in the result.
\<close>

theorem persist_idempotent_witness:
  "persist find_f8 0 example_dataset example_diffs ''Z-Index'' =
     Inr (example_stored, [Assign 0 (series [0, 1, 1, - 1]), Assign 1 (series [0, 0, 0, - 1])]) \<and>
   persist find_f8 3 example_stored example_diffs ''Z-Index'' =
     Inr (example_stored, [Assign 0 (series [0, 1, 1, - 1]), Assign 1 (series [0, 0, 0, - 1])]) \<and>
   dom (variables example_stored) = {''diffs_Z-Index'', ''cmb_zndx'', ''zindex''}"
proof -
  from persist_idempotent [OF ex_persist, of find_f8 3]
  have "persist find_f8 3 example_stored example_diffs ''Z-Index'' =
          Inr (example_stored, [Assign 0 (series [0, 1, 1, - 1]), Assign 1 (series [0, 0, 0, - 1])])"
    and "dom (variables example_stored) = insert ''diffs_Z-Index'' (dom (variables example_dataset))"
    by simp_all
  moreover have "dom (variables example_dataset) = {''cmb_zndx'', ''zindex''}"
    by (auto simp: example_dataset_def)
  ultimately show ?thesis using ex_persist by simp
qed

subsection \<open>What a run leaves alone\<close>

text \<open>
  Claim C7. A run that stores differences under a label leaves the divisions, the time
  steps and every variable with another name than \<^verbatim>\<open>'diffs_' + index\<close> as they were. In
  that variable, the one that existed before the run or else the new one, the row of every
  division whose position has no entry in the dictionary is as it was before the loop.
\<close>

theorem persist_frame:
  assumes "persist find_netcdf_datatype choice ds dd index = Inr (ds', events)"
  shows "division ds' = division ds \<and> time ds' = time ds \<and>
         (\<forall>name. name \<noteq> ''diffs_'' @ index \<longrightarrow> variables ds' name = variables ds name) \<and>
         (\<exists>v0 v'. provision find_netcdf_datatype choice ds dd (''diffs_'' @ index) = Inr v0 \<and>
            (\<forall>v. variables ds (''diffs_'' @ index) = Some v \<longrightarrow> v0 = v) \<and>
            variables ds' (''diffs_'' @ index) = Some v' \<and>
            (\<forall>j<length (division ds).
               map_of dd (IntKey (int j)) = None \<longrightarrow> rows v' ! j = rows v0 ! j))"
proof -
  let ?name = "''diffs_'' @ index"
  from assms obtain v0 v' where
    prov: "provision find_netcdf_datatype choice ds dd ?name = Inr v0"
    and run: "write_rows dd (length (time ds)) 0 (division ds) v0 = Inr (v', events)"
    and ds': "ds' = ds\<lparr>variables := (variables ds)(?name \<mapsto> v')\<rparr>"
    by (rule persist_Inr)
  from ds' have coords: "division ds' = division ds \<and> time ds' = time ds" by simp
  from ds' have others: "\<forall>name. name \<noteq> ?name \<longrightarrow> variables ds' name = variables ds name"
    by simp
  from ds' have found: "variables ds' ?name = Some v'" by simp
  from prov have existing: "\<forall>v. variables ds ?name = Some v \<longrightarrow> v0 = v"
    by (auto simp: provision_def)
  have rows_kept: "\<forall>j<length (division ds).
      map_of dd (IntKey (int j)) = None \<longrightarrow> rows v' ! j = rows v0 ! j"
  proof (intro allI impI)
    fix j assume "map_of dd (IntKey (int j)) = None"
    then have "written_at dd (length (time ds)) j = None" by (simp add: written_at_def)
    with write_rows_rows [OF run, of j] show "rows v' ! j = rows v0 ! j" by simp
  qed
  from prov existing found rows_kept
  have "\<exists>v0 v'. provision find_netcdf_datatype choice ds dd ?name = Inr v0 \<and>
            (\<forall>v. variables ds ?name = Some v \<longrightarrow> v0 = v) \<and>
            variables ds' ?name = Some v' \<and>
            (\<forall>j<length (division ds).
               map_of dd (IntKey (int j)) = None \<longrightarrow> rows v' ! j = rows v0 ! j)"
    by blast
  with coords others show ?thesis by blast
qed

lemma ex_overwrite:
  "persist find_f8 0 example_stored [(IntKey 0, series [9, 9, 9, 9])] ''Z-Index'' =
     Inr (example_stored\<lparr>variables := (variables example_stored)
            (''diffs_Z-Index'' \<mapsto> example_variable [[9, 9, 9, 9], [0, 0, 0, - 1]])\<rparr>,
          [Assign 0 (series [9, 9, 9, 9])])"
  by (simp add: persist_def provision_def example_dataset_def
      assign_row_def example_stored_def example_variable_def series_def Let_def)

text \<open>
  The dataset that already holds the variable \<^verbatim>\<open>diffs_Z-Index\<close>, and a dictionary with an
  entry for the first division only.
\<close>

theorem persist_frame_witness:
  "\<exists>ds' events v'.
     persist find_f8 0 example_stored [(IntKey 0, series [9, 9, 9, 9])] ''Z-Index'' =
       Inr (ds', events) \<and>
     ''cmb_zndx'' \<noteq> ''diffs_'' @ ''Z-Index'' \<and>
     variables ds' ''cmb_zndx'' = variables example_stored ''cmb_zndx'' \<and>
     variables ds' ''zindex'' = variables example_stored ''zindex'' \<and>
     division ds' = [IntKey 101, IntKey 102] \<and>
     1 < length (division example_stored) \<and>
     map_of [(IntKey 0, series [9, 9, 9, 9])] (IntKey (int 1)) = None \<and>
     variables ds' ''diffs_Z-Index'' = Some v' \<and>
     rows v' ! 1 = series [0, 0, 0, - 1]"
proof -
  let ?dd = "[(IntKey 0, series [9, 9, 9, 9])]"
  let ?ds' = "example_stored\<lparr>variables := (variables example_stored)
            (''diffs_Z-Index'' \<mapsto> example_variable [[9, 9, 9, 9], [0, 0, 0, - 1]])\<rparr>"
  have old: "variables example_stored (''diffs_'' @ ''Z-Index'') =
               Some (example_variable [[0, 1, 1, - 1], [0, 0, 0, - 1]])"
    by (simp add: example_stored_def)
  from persist_frame [OF ex_overwrite] obtain v0 v' where
    coords: "division ?ds' = division example_stored"
    and others: "\<forall>name. name \<noteq> ''diffs_'' @ ''Z-Index'' \<longrightarrow>
                   variables ?ds' name = variables example_stored name"
    and v0: "\<forall>v. variables example_stored (''diffs_'' @ ''Z-Index'') = Some v \<longrightarrow> v0 = v"
    and v': "variables ?ds' (''diffs_'' @ ''Z-Index'') = Some v'"
    and kept: "\<forall>j<length (division example_stored).
                 map_of ?dd (IntKey (int j)) = None \<longrightarrow> rows v' ! j = rows v0 ! j"
    by blast
  from v0 old have "v0 = example_variable [[0, 1, 1, - 1], [0, 0, 0, - 1]]" by blast
  with kept [rule_format, of 1] have "rows v' ! 1 = series [0, 0, 0, - 1]"
    by (simp add: ex_stored_division example_variable_def)
  moreover from others have "variables ?ds' ''cmb_zndx'' = variables example_stored ''cmb_zndx''"
    "variables ?ds' ''zindex'' = variables example_stored ''zindex''" by simp_all
  moreover from coords have "division ?ds' = [IntKey 101, IntKey 102]"
    by (simp add: ex_stored_division)
  moreover from v' have "variables ?ds' ''diffs_Z-Index'' = Some v'" by simp
  ultimately show ?thesis using ex_overwrite by (simp add: ex_stored_division)
qed

subsection \<open>The lock\<close>


end
